theory Spec2Isabelle
  imports Complex_Main
begin

section \<open>Numbers and time values\<close>

text \<open>
  Monetary amounts are JavaScript numbers. They are modelled as exact rationals: rounding
  and signed zero are left out, and a division keeps its non-finite results (a quotient
  by zero is \<open>Infinity\<close>, \<open>-Infinity\<close> or \<open>NaN\<close>).
\<close>

datatype jsnum = Fin rat | PosInf | NegInf | NaN

text \<open>\<^verbatim>\<open>a / b\<close> on two finite numbers.\<close>

definition js_div :: "rat \<Rightarrow> rat \<Rightarrow> jsnum" where
  "js_div a b =
     (if b = 0 then (if a = 0 then NaN else if 0 < a then PosInf else NegInf)
      else Fin (a / b))"

text \<open>\<^verbatim>\<open>x * c\<close> for a finite factor \<open>c\<close>.\<close>

fun js_mul :: "jsnum \<Rightarrow> rat \<Rightarrow> jsnum" where
  "js_mul (Fin a) c = Fin (a * c)"
| "js_mul PosInf c = (if c = 0 then NaN else if 0 < c then PosInf else NegInf)"
| "js_mul NegInf c = (if c = 0 then NaN else if 0 < c then NegInf else PosInf)"
| "js_mul NaN c = NaN"

text \<open>\<^verbatim>\<open>x >= c\<close> and \<^verbatim>\<open>x > c\<close>: every comparison with \<open>NaN\<close> is false.\<close>

fun js_ge :: "jsnum \<Rightarrow> rat \<Rightarrow> bool" where
  "js_ge (Fin a) c = (c \<le> a)"
| "js_ge PosInf c = True"
| "js_ge NegInf c = False"
| "js_ge NaN c = False"

fun js_gt :: "jsnum \<Rightarrow> rat \<Rightarrow> bool" where
  "js_gt (Fin a) c = (c < a)"
| "js_gt PosInf c = True"
| "js_gt NegInf c = False"
| "js_gt NaN c = False"

text \<open>\<^verbatim>\<open>Math.min(x, c)\<close>: \<open>NaN\<close> if an argument is \<open>NaN\<close>.\<close>

fun Math_min :: "jsnum \<Rightarrow> rat \<Rightarrow> jsnum" where
  "Math_min (Fin a) c = Fin (min a c)"
| "Math_min PosInf c = Fin c"
| "Math_min NegInf c = NegInf"
| "Math_min NaN c = NaN"

text \<open>
  \<^verbatim>\<open>array.reduce((total, x) => total + f(x), 0)\<close>: a left fold from 0.
\<close>

definition reduce_sum :: "('a \<Rightarrow> rat) \<Rightarrow> 'a list \<Rightarrow> rat" where
  "reduce_sum f xs = foldl (\<lambda>total x. total + f x) 0 xs"

text \<open>
  The time value of a \<^verbatim>\<open>Date\<close> object: milliseconds, or \<open>NaN\<close> for an invalid date.
  Time values are read on the local civil time line (the offset between local time and UTC
  is taken as fixed, so it shifts every time value alike and changes no comparison).
\<close>

datatype timeval = Time int | InvalidDate

text \<open>\<^verbatim>\<open>a >= b\<close> and \<^verbatim>\<open>a <= b\<close> on two dates compare their time values.\<close>

fun date_ge :: "timeval \<Rightarrow> timeval \<Rightarrow> bool" where
  "date_ge (Time a) (Time b) = (b \<le> a)"
| "date_ge _ _ = False"

fun date_le :: "timeval \<Rightarrow> timeval \<Rightarrow> bool" where
  "date_le (Time a) (Time b) = (a \<le> b)"
| "date_le _ _ = False"

definition msPerDay :: int where
  "msPerDay = 86400000"

text \<open>The day number of 1 January of year \<open>y\<close> (ECMAScript \<open>DayFromYear\<close>).\<close>

definition DayFromYear :: "int \<Rightarrow> int" where
  "DayFromYear y =
     365 * (y - 1970) + (y - 1969) div 4 - (y - 1901) div 100 + (y - 1601) div 400"

definition InLeapYear :: "int \<Rightarrow> bool" where
  "InLeapYear y = ((y mod 4 = 0 \<and> y mod 100 \<noteq> 0) \<or> y mod 400 = 0)"

text \<open>
  The day within the year on which month \<open>mn\<close> (0 = January .. 11 = December) starts,
  from the table behind ECMAScript's \<open>MonthFromTime\<close>.
\<close>

definition MonthStart :: "int \<Rightarrow> int \<Rightarrow> int" where
  "MonthStart y mn =
     (let leap = (if InLeapYear y then 1 else 0) in
      if mn = 0 then 0
      else if mn = 1 then 31
      else if mn = 2 then 59 + leap
      else if mn = 3 then 90 + leap
      else if mn = 4 then 120 + leap
      else if mn = 5 then 151 + leap
      else if mn = 6 then 181 + leap
      else if mn = 7 then 212 + leap
      else if mn = 8 then 243 + leap
      else if mn = 9 then 273 + leap
      else if mn = 10 then 304 + leap
      else 334 + leap)"

text \<open>
  ECMAScript \<open>MakeDay\<close>: a month index outside 0..11 carries into the year, and the day
  of the month counts on from day 1, so day 0 is the last day of the month before.
\<close>

definition MakeDay :: "int \<Rightarrow> int \<Rightarrow> int \<Rightarrow> int" where
  "MakeDay year month dt =
     (let ym = year + month div 12;
          mn = month mod 12
      in DayFromYear ym + MonthStart ym mn + dt - 1)"

definition MakeTime :: "int \<Rightarrow> int \<Rightarrow> int \<Rightarrow> int \<Rightarrow> int" where
  "MakeTime hour minute sec ms = hour * 3600000 + minute * 60000 + sec * 1000 + ms"

definition MakeDate :: "int \<Rightarrow> int \<Rightarrow> int" where
  "MakeDate day time = day * msPerDay + time"

definition TimeClip :: "int \<Rightarrow> timeval" where
  "TimeClip t = (if \<bar>t\<bar> > 8640000000000000 then InvalidDate else Time t)"

text \<open>
  \<^verbatim>\<open>new Date(year, monthIndex, day, hours, minutes, seconds, ms)\<close>. A year from 0 to 99
  stands for 1900 + year.
\<close>

definition new_Date :: "int \<Rightarrow> int \<Rightarrow> int \<Rightarrow> int \<Rightarrow> int \<Rightarrow> int \<Rightarrow> int \<Rightarrow> timeval" where
  "new_Date y m dt h mi s milli =
     (let yr = (if 0 \<le> y \<and> y \<le> 99 then 1900 + y else y)
      in TimeClip (MakeDate (MakeDay yr m dt) (MakeTime h mi s milli)))"

section \<open>Account store (AccountsContext.jsx)\<close>

record account =
  a_id :: nat
  a_name :: string
  a_type :: string
  a_balance :: rat
  a_isActive :: bool

definition ACCOUNT_TYPES_CREDIT :: string where
  "ACCOUNT_TYPES_CREDIT = ''credit''"

definition getTotalBalance :: "account list \<Rightarrow> rat" where
  "getTotalBalance accounts =
     reduce_sum a_balance
       (filter (\<lambda>account. a_isActive account \<and> a_type account \<noteq> ACCOUNT_TYPES_CREDIT) accounts)"

definition getTotalDebt :: "account list \<Rightarrow> rat" where
  "getTotalDebt accounts =
     \<bar>reduce_sum a_balance
        (filter (\<lambda>account. a_isActive account \<and> a_type account = ACCOUNT_TYPES_CREDIT
                            \<and> a_balance account < 0) accounts)\<bar>"

section \<open>Transaction store (TransactionsContext.jsx)\<close>

record category =
  c_id :: string
  c_name :: string
  c_icon :: string
  c_color :: string

text \<open>
  A transaction as the API returns it. \<open>t_date\<close> holds the time value that
  \<^verbatim>\<open>new Date(transaction.date)\<close> gives for the stored date.
\<close>

record transaction =
  t_id :: nat
  t_date :: timeval
  t_amount :: rat
  t_type :: string
  t_category :: category
  t_accountId :: nat
  t_status :: string

definition TRANSACTION_TYPES_INCOME :: string where
  "TRANSACTION_TYPES_INCOME = ''income''"

definition TRANSACTION_TYPES_EXPENSE :: string where
  "TRANSACTION_TYPES_EXPENSE = ''expense''"

definition TRANSACTION_STATUS_COMPLETED :: string where
  "TRANSACTION_STATUS_COMPLETED = ''completed''"

definition TRANSACTION_STATUS_PENDING :: string where
  "TRANSACTION_STATUS_PENDING = ''pending''"

definition TRANSACTION_STATUS_CANCELLED :: string where
  "TRANSACTION_STATUS_CANCELLED = ''cancelled''"

record transactions_state =
  transactions :: "transaction list"
  transactions_isLoading :: bool
  transactions_error :: "string option"

datatype transactions_action =
    LOAD_TRANSACTIONS "transaction list"
  | ADD_TRANSACTION transaction
  | UPDATE_TRANSACTION transaction
  | DELETE_TRANSACTION nat
  | TRANSACTIONS_SET_LOADING bool
  | TRANSACTIONS_SET_ERROR string
  | TRANSACTIONS_CLEAR_ERROR

fun transactionsReducer :: "transactions_state \<Rightarrow> transactions_action \<Rightarrow> transactions_state" where
  "transactionsReducer state (LOAD_TRANSACTIONS payload) =
     state\<lparr>transactions := payload, transactions_isLoading := False, transactions_error := None\<rparr>"
| "transactionsReducer state (ADD_TRANSACTION payload) =
     state\<lparr>transactions := payload # transactions state,
           transactions_isLoading := False, transactions_error := None\<rparr>"
| "transactionsReducer state (UPDATE_TRANSACTION payload) =
     state\<lparr>transactions :=
             map (\<lambda>transaction. if t_id transaction = t_id payload then payload else transaction)
               (transactions state),
           transactions_isLoading := False, transactions_error := None\<rparr>"
| "transactionsReducer state (DELETE_TRANSACTION payload) =
     state\<lparr>transactions := filter (\<lambda>transaction. t_id transaction \<noteq> payload) (transactions state),
           transactions_isLoading := False, transactions_error := None\<rparr>"
| "transactionsReducer state (TRANSACTIONS_SET_LOADING payload) =
     state\<lparr>transactions_isLoading := payload\<rparr>"
| "transactionsReducer state (TRANSACTIONS_SET_ERROR payload) =
     state\<lparr>transactions_error := Some payload, transactions_isLoading := False\<rparr>"
| "transactionsReducer state TRANSACTIONS_CLEAR_ERROR =
     state\<lparr>transactions_error := None\<rparr>"

text \<open>
  The mutations await one API call. The server is outside the program, so the call is a
  parameter: it answers \<open>Inr dados\<close>, or \<open>Inl message\<close> when the request is rejected with an
  error carrying that message. Each mutation returns the state after its dispatches, whether
  it has asked the account store to reload (\<^verbatim>\<open>loadAccounts()\<close>), and its own outcome:
  \<open>Inr\<close> the value returned, \<open>Inl\<close> the message of the error thrown.
\<close>

definition addTransaction ::
  "('d \<Rightarrow> string + transaction) \<Rightarrow> transactions_state \<Rightarrow> 'd
     \<Rightarrow> transactions_state \<times> bool \<times> (string + transaction)" where
  "addTransaction api_post state transactionData =
     (let s1 = transactionsReducer state (TRANSACTIONS_SET_LOADING True) in
      case api_post transactionData of
        Inr newTransaction \<Rightarrow>
          (transactionsReducer s1 (ADD_TRANSACTION newTransaction), True, Inr newTransaction)
      | Inl mensagem \<Rightarrow>
          (transactionsReducer s1 (TRANSACTIONS_SET_ERROR mensagem), False, Inl mensagem))"

definition updateTransaction ::
  "(nat \<Rightarrow> 'u \<Rightarrow> string + transaction) \<Rightarrow> transactions_state \<Rightarrow> nat \<Rightarrow> 'u
     \<Rightarrow> transactions_state \<times> bool \<times> (string + transaction)" where
  "updateTransaction api_put state transactionId updates =
     (let s1 = transactionsReducer state (TRANSACTIONS_SET_LOADING True) in
      case api_put transactionId updates of
        Inr updatedTransaction \<Rightarrow>
          (transactionsReducer s1 (UPDATE_TRANSACTION updatedTransaction), True,
           Inr updatedTransaction)
      | Inl mensagem \<Rightarrow>
          (transactionsReducer s1 (TRANSACTIONS_SET_ERROR mensagem), False, Inl mensagem))"

definition deleteTransaction ::
  "(nat \<Rightarrow> string + unit) \<Rightarrow> transactions_state \<Rightarrow> nat
     \<Rightarrow> transactions_state \<times> bool \<times> (string + unit)" where
  "deleteTransaction api_delete state transactionId =
     (let s1 = transactionsReducer state (TRANSACTIONS_SET_LOADING True) in
      case api_delete transactionId of
        Inr _ \<Rightarrow>
          (transactionsReducer s1 (DELETE_TRANSACTION transactionId), True, Inr ())
      | Inl mensagem \<Rightarrow>
          (transactionsReducer s1 (TRANSACTIONS_SET_ERROR mensagem), False, Inl mensagem))"

text \<open>The read accessors take \<^verbatim>\<open>state.transactions\<close> as their first argument.\<close>

definition getTransactionsByPeriod ::
  "transaction list \<Rightarrow> timeval \<Rightarrow> timeval \<Rightarrow> transaction list" where
  "getTransactionsByPeriod txs startDate endDate =
     filter (\<lambda>transaction. date_ge (t_date transaction) startDate
                          \<and> date_le (t_date transaction) endDate) txs"

definition getTransactionsByCategory :: "transaction list \<Rightarrow> string \<Rightarrow> transaction list" where
  "getTransactionsByCategory txs categoryId =
     filter (\<lambda>transaction. c_id (t_category transaction) = categoryId) txs"

text \<open>
  The bounds of the totals are optional \<^verbatim>\<open>Date\<close> objects: \<open>None\<close> is a bound not given
  (\<^verbatim>\<open>undefined\<close>), and a \<^verbatim>\<open>Date\<close> object is truthy whatever its time value.
\<close>

definition getTotalIncome ::
  "transaction list \<Rightarrow> timeval option \<Rightarrow> timeval option \<Rightarrow> rat" where
  "getTotalIncome txs startDate endDate =
     (let transactions =
            (case (startDate, endDate) of
               (Some s, Some e) \<Rightarrow> getTransactionsByPeriod txs s e
             | _ \<Rightarrow> txs)
      in reduce_sum t_amount
           (filter (\<lambda>t. t_type t = TRANSACTION_TYPES_INCOME
                        \<and> t_status t = TRANSACTION_STATUS_COMPLETED) transactions))"

definition getTotalExpenses ::
  "transaction list \<Rightarrow> timeval option \<Rightarrow> timeval option \<Rightarrow> rat" where
  "getTotalExpenses txs startDate endDate =
     (let transactions =
            (case (startDate, endDate) of
               (Some s, Some e) \<Rightarrow> getTransactionsByPeriod txs s e
             | _ \<Rightarrow> txs)
      in reduce_sum t_amount
           (filter (\<lambda>t. t_type t = TRANSACTION_TYPES_EXPENSE
                        \<and> t_status t = TRANSACTION_STATUS_COMPLETED) transactions))"

section \<open>Budget store (BudgetsContext.jsx)\<close>

record budget =
  b_id :: nat
  b_name :: string
  b_categoryId :: string
  b_amount :: rat
  b_year :: int
  b_month :: int
  b_isActive :: bool
  b_description :: string

definition BUDGET_STATUS_ON_TRACK :: string where
  "BUDGET_STATUS_ON_TRACK = ''on_track''"

definition BUDGET_STATUS_WARNING :: string where
  "BUDGET_STATUS_WARNING = ''warning''"

definition BUDGET_STATUS_EXCEEDED :: string where
  "BUDGET_STATUS_EXCEEDED = ''exceeded''"

record budgets_state =
  budgets :: "budget list"
  budgets_isLoading :: bool
  budgets_error :: "string option"

datatype budgets_action =
    LOAD_BUDGETS "budget list"
  | ADD_BUDGET budget
  | UPDATE_BUDGET budget
  | DELETE_BUDGET nat
  | BUDGETS_SET_LOADING bool
  | BUDGETS_SET_ERROR string
  | BUDGETS_CLEAR_ERROR

fun budgetsReducer :: "budgets_state \<Rightarrow> budgets_action \<Rightarrow> budgets_state" where
  "budgetsReducer state (LOAD_BUDGETS payload) =
     state\<lparr>budgets := payload, budgets_isLoading := False, budgets_error := None\<rparr>"
| "budgetsReducer state (ADD_BUDGET payload) =
     state\<lparr>budgets := budgets state @ [payload],
           budgets_isLoading := False, budgets_error := None\<rparr>"
| "budgetsReducer state (UPDATE_BUDGET payload) =
     state\<lparr>budgets := map (\<lambda>budget. if b_id budget = b_id payload then payload else budget)
                        (budgets state),
           budgets_isLoading := False, budgets_error := None\<rparr>"
| "budgetsReducer state (DELETE_BUDGET payload) =
     state\<lparr>budgets := filter (\<lambda>budget. b_id budget \<noteq> payload) (budgets state),
           budgets_isLoading := False, budgets_error := None\<rparr>"
| "budgetsReducer state (BUDGETS_SET_LOADING payload) = state\<lparr>budgets_isLoading := payload\<rparr>"
| "budgetsReducer state (BUDGETS_SET_ERROR payload) =
     state\<lparr>budgets_error := Some payload, budgets_isLoading := False\<rparr>"
| "budgetsReducer state BUDGETS_CLEAR_ERROR = state\<lparr>budgets_error := None\<rparr>"

text \<open>
  The budget mutations, with the API call as a parameter as above. They return the state
  after their dispatches and their outcome.
\<close>

definition addBudget ::
  "('d \<Rightarrow> string + budget) \<Rightarrow> budgets_state \<Rightarrow> 'd \<Rightarrow> budgets_state \<times> (string + budget)" where
  "addBudget api_post state budgetData =
     (let s1 = budgetsReducer state (BUDGETS_SET_LOADING True) in
      case api_post budgetData of
        Inr newBudget \<Rightarrow> (budgetsReducer s1 (ADD_BUDGET newBudget), Inr newBudget)
      | Inl mensagem \<Rightarrow> (budgetsReducer s1 (BUDGETS_SET_ERROR mensagem), Inl mensagem))"

definition updateBudget ::
  "(nat \<Rightarrow> 'u \<Rightarrow> string + budget) \<Rightarrow> budgets_state \<Rightarrow> nat \<Rightarrow> 'u
     \<Rightarrow> budgets_state \<times> (string + budget)" where
  "updateBudget api_put state budgetId updates =
     (let s1 = budgetsReducer state (BUDGETS_SET_LOADING True) in
      case api_put budgetId updates of
        Inr updatedBudget \<Rightarrow> (budgetsReducer s1 (UPDATE_BUDGET updatedBudget), Inr updatedBudget)
      | Inl mensagem \<Rightarrow> (budgetsReducer s1 (BUDGETS_SET_ERROR mensagem), Inl mensagem))"

definition deleteBudget ::
  "(nat \<Rightarrow> string + unit) \<Rightarrow> budgets_state \<Rightarrow> nat \<Rightarrow> budgets_state \<times> (string + unit)" where
  "deleteBudget api_delete state budgetId =
     (let s1 = budgetsReducer state (BUDGETS_SET_LOADING True) in
      case api_delete budgetId of
        Inr _ \<Rightarrow> (budgetsReducer s1 (DELETE_BUDGET budgetId), Inr ())
      | Inl mensagem \<Rightarrow> (budgetsReducer s1 (BUDGETS_SET_ERROR mensagem), Inl mensagem))"

text \<open>
  The derived values read \<^verbatim>\<open>state.budgets\<close> and, through
  \<^verbatim>\<open>getTransactionsByCategory\<close>, the transaction store's \<^verbatim>\<open>state.transactions\<close>; both
  are arguments here.
\<close>

definition getCategorySpent :: "transaction list \<Rightarrow> string \<Rightarrow> int \<Rightarrow> int \<Rightarrow> rat" where
  "getCategorySpent txs categoryId year month =
     (let startDate = new_Date year (month - 1) 1 0 0 0 0;
          endDate = new_Date year month 0 23 59 59 0;
          transactions = getTransactionsByCategory txs categoryId
      in reduce_sum t_amount
           (filter (\<lambda>transaction.
                      date_ge (t_date transaction) startDate
                      \<and> date_le (t_date transaction) endDate
                      \<and> t_type transaction = TRANSACTION_TYPES_EXPENSE) transactions))"

definition getBudgetStatus :: "transaction list \<Rightarrow> budget \<Rightarrow> string" where
  "getBudgetStatus txs budget =
     (let spent = getCategorySpent txs (b_categoryId budget) (b_year budget) (b_month budget);
          percentage = js_mul (js_div spent (b_amount budget)) 100
      in if js_ge percentage 100 then BUDGET_STATUS_EXCEEDED
         else if js_ge percentage 80 then BUDGET_STATUS_WARNING
         else BUDGET_STATUS_ON_TRACK)"

record budget_with_spent = budget +
  spent :: rat
  remaining :: rat
  percentage :: jsnum
  status :: string

definition getBudgetsWithSpent :: "budget list \<Rightarrow> transaction list \<Rightarrow> budget_with_spent list" where
  "getBudgetsWithSpent bs txs =
     map (\<lambda>budget.
            let spent = getCategorySpent txs (b_categoryId budget) (b_year budget) (b_month budget);
                remaining = b_amount budget - spent;
                percentage = js_mul (js_div spent (b_amount budget)) 100;
                status = getBudgetStatus txs budget
            in budget.extend budget
                 \<lparr>spent = spent, remaining = remaining,
                  percentage = Math_min percentage 100, status = status\<rparr>) bs"

definition getTotalBudgeted :: "budget list \<Rightarrow> int \<Rightarrow> int \<Rightarrow> rat" where
  "getTotalBudgeted bs year month =
     reduce_sum b_amount
       (filter (\<lambda>budget. b_year budget = year \<and> b_month budget = month \<and> b_isActive budget) bs)"

definition getTotalSpent :: "budget list \<Rightarrow> transaction list \<Rightarrow> int \<Rightarrow> int \<Rightarrow> rat" where
  "getTotalSpent bs txs year month =
     reduce_sum (\<lambda>budget. getCategorySpent txs (b_categoryId budget) (b_year budget) (b_month budget))
       (filter (\<lambda>budget. b_year budget = year \<and> b_month budget = month \<and> b_isActive budget) bs)"

section \<open>The calendar month, for stating the window\<close>

text \<open>
  The number of days of month \<open>m\<close> (1 = January .. 12 = December) of year \<open>y\<close>, and the
  two ends of the month as time values: day 1 at 00:00:00.000, and the last day at
  23:59:59.000. These follow the calendar, not the code; the properties below compare the
  code's window with them.
\<close>

definition DaysInMonth :: "int \<Rightarrow> int \<Rightarrow> int" where
  "DaysInMonth y m =
     (if m = 2 then (if InLeapYear y then 29 else 28)
      else if m = 4 \<or> m = 6 \<or> m = 9 \<or> m = 11 then 30
      else 31)"

definition month_first_instant :: "int \<Rightarrow> int \<Rightarrow> int" where
  "month_first_instant y m = MakeDate (MakeDay y (m - 1) 1) (MakeTime 0 0 0 0)"

definition month_last_second :: "int \<Rightarrow> int \<Rightarrow> int" where
  "month_last_second y m =
     MakeDate (MakeDay y (m - 1) (DaysInMonth y m)) (MakeTime 23 59 59 0)"

section \<open>Example data\<close>

text \<open>
  The scenario of the specification: a budget of 500 for the category \<open>food\<close> in March 2024,
  two food expenses of 200 and 150 in March 2024 (5 March 12:00 and 20 March 00:00) and one
  of 100 on 10 February 2024; then a further March expense of 200. The second expense is
  still pending.
\<close>

definition example_food :: category where
  "example_food = \<lparr>c_id = ''food'', c_name = ''Alimentacao'', c_icon = ''*'', c_color = ''#e67e22''\<rparr>"

definition example_tx :: "nat \<Rightarrow> int \<Rightarrow> rat \<Rightarrow> string \<Rightarrow> string \<Rightarrow> transaction" where
  "example_tx i d a ty st =
     \<lparr>t_id = i, t_date = Time d, t_amount = a, t_type = ty, t_category = example_food,
      t_accountId = 1, t_status = st\<rparr>"

definition example_budget :: budget where
  "example_budget =
     \<lparr>b_id = 1, b_name = ''Food'', b_categoryId = ''food'', b_amount = 500, b_year = 2024,
      b_month = 3, b_isActive = True, b_description = ''monthly food''\<rparr>"

definition example_transactions :: "transaction list" where
  "example_transactions =
     [example_tx 1 1709640000000 200 ''expense'' ''completed'',
      example_tx 2 1710892800000 150 ''expense'' ''pending'',
      example_tx 3 1707523200000 100 ''expense'' ''completed'']"

definition example_transactions_more :: "transaction list" where
  "example_transactions_more =
     example_tx 4 1711324800000 200 ''expense'' ''completed'' # example_transactions"

text \<open>Incomes and expenses around the period from time 1000 to time 2000.\<close>

definition example_period :: "transaction list" where
  "example_period =
     [example_tx 1 1000 200 ''income'' ''completed'',
      example_tx 2 2000 150 ''income'' ''completed'',
      example_tx 3 2001 70 ''income'' ''completed'',
      example_tx 4 1500 30 ''income'' ''pending'',
      example_tx 5 1500 40 ''expense'' ''completed'',
      example_tx 6 999 25 ''expense'' ''completed'']"

definition example_budgets_state :: budgets_state where
  "example_budgets_state =
     \<lparr>budgets = [example_budget], budgets_isLoading = False, budgets_error = None\<rparr>"

definition example_transactions_state :: transactions_state where
  "example_transactions_state =
     \<lparr>transactions = example_transactions, transactions_isLoading = False,
      transactions_error = None\<rparr>"

section \<open>Properties\<close>

lemma foldl_add_shift:
  "foldl (\<lambda>total x. total + f x) (a::rat) xs = a + sum_list (map f xs)"
  by (induction xs arbitrary: a) simp_all

lemma reduce_sum_eq: "reduce_sum f xs = sum_list (map f xs)"
  by (simp add: reduce_sum_def foldl_add_shift)

lemma date_ge_le: "date_ge a b = date_le b a"
  by (cases a; cases b) simp_all

lemma date_le_Time_iff: "(date_le (Time a) d \<and> date_le d (Time b)) = (d \<in> Time ` {a..b})"
  by (cases d) auto

subsection \<open>Calendar arithmetic\<close>

lemma div_step:
  assumes "0 < k"
  shows "((x::int) + 1) div k = x div k + (if (x + 1) mod k = 0 then 1 else 0)"
proof -
  define q where "q = x div k"
  define r where "r = x mod k"
  have x: "x = k * q + r"
    unfolding q_def r_def by (rule mult_div_mod_eq [symmetric])
  have r: "0 \<le> r" "r < k"
    using assms by (simp_all add: r_def)
  show ?thesis
  proof (cases "r + 1 = k")
    case True
    have "x + 1 = k * (q + 1) + 0"
      using x True by (simp add: algebra_simps)
    then have "(x + 1) div k = q + 1" "(x + 1) mod k = 0"
      using assms by (auto intro: int_div_pos_eq int_mod_pos_eq)
    then show ?thesis by (simp add: q_def)
  next
    case False
    have "x + 1 = k * q + (r + 1)"
      using x by simp
    moreover have "0 \<le> r + 1" "r + 1 < k"
      using r False by simp_all
    ultimately have "(x + 1) div k = q" "(x + 1) mod k = r + 1"
      by (auto intro: int_div_pos_eq int_mod_pos_eq)
    then show ?thesis using r by (simp add: q_def)
  qed
qed

lemma mod_shift:
  "(((y::int) - 1968) mod 4 = 0) = (y mod 4 = 0)"
  "(((y::int) - 1900) mod 100 = 0) = (y mod 100 = 0)"
  "(((y::int) - 1600) mod 400 = 0) = (y mod 400 = 0)"
  by (simp_all add: mod_eq_0_iff_dvd dvd_diff_left_iff)

lemma leap_rule:
  "(y::int) mod 400 = 0 \<Longrightarrow> y mod 100 = 0" "(y::int) mod 100 = 0 \<Longrightarrow> y mod 4 = 0"
  by (auto simp: mod_eq_0_iff_dvd elim: dvd_trans [rotated])

lemma DayFromYear_Suc:
  "DayFromYear (y + 1) = DayFromYear y + (if InLeapYear y then 366 else 365)"
proof -
  define p4 where "p4 = (y mod 4 = 0)"
  define p100 where "p100 = (y mod 100 = 0)"
  define p400 where "p400 = (y mod 400 = 0)"
  define a where "a = (y - 1969) div 4"
  define b where "b = (y - 1901) div 100"
  define c where "c = (y - 1601) div 400"
  have A: "(y - 1968) div 4 = a + (if p4 then 1 else 0)"
    using div_step [of 4 "y - 1969"] by (simp add: mod_shift a_def p4_def)
  have B: "(y - 1900) div 100 = b + (if p100 then 1 else 0)"
    using div_step [of 100 "y - 1901"] by (simp add: mod_shift b_def p100_def)
  have C: "(y - 1600) div 400 = c + (if p400 then 1 else 0)"
    using div_step [of 400 "y - 1601"] by (simp add: mod_shift c_def p400_def)
  have imp: "p400 \<longrightarrow> p100" "p100 \<longrightarrow> p4"
    using leap_rule [of y] by (simp_all add: p4_def p100_def p400_def)
  have leap: "InLeapYear y = ((p4 \<and> \<not> p100) \<or> p400)"
    by (simp add: InLeapYear_def p4_def p100_def p400_def)
  have e1: "DayFromYear (y + 1) =
      365 * y - 718685 + (y - 1968) div 4 - (y - 1900) div 100 + (y - 1600) div 400"
    by (simp add: DayFromYear_def)
  have e0: "DayFromYear y = 365 * y - 719050 + a - b + c"
    by (simp add: DayFromYear_def a_def b_def c_def)
  show ?thesis
    unfolding e1 e0 A B C leap using imp by (cases p4; cases p100; cases p400) simp_all
qed

lemma month_cases:
  "1 \<le> m \<Longrightarrow> m \<le> 12 \<Longrightarrow>
   m = 1 \<or> m = 2 \<or> m = 3 \<or> m = 4 \<or> m = 5 \<or> m = 6 \<or> m = 7 \<or> m = 8 \<or> m = 9 \<or> m = 10
   \<or> m = 11 \<or> m = (12::int)"
  by arith

lemma MakeDay_next_month:
  assumes "1 \<le> m" "m \<le> 12"
  shows "MakeDay y m dt = MakeDay y (m - 1) dt + DaysInMonth y m"
  using month_cases [OF assms]
  by (elim disjE) (simp_all add: MakeDay_def MonthStart_def DaysInMonth_def DayFromYear_Suc Let_def)

lemma div_bounds:
  fixes x k :: int
  assumes "0 < k"
  shows "k * (x div k) \<le> x" "x < k * (x div k) + k"
proof -
  have "k * (x div k) = x - x mod k"
    by (simp add: minus_mod_eq_mult_div)
  then show "k * (x div k) \<le> x" "x < k * (x div k) + k"
    using pos_mod_sign [OF assms, of x] pos_mod_bound [OF assms, of x] by simp_all
qed

lemma DayFromYear_bounds:
  assumes "100 \<le> y" "y \<le> 200001"
  shows "- 700000 \<le> DayFromYear y" "DayFromYear y \<le> 73100000"
proof -
  define a where "a = (y - 1969) div 4"
  define b where "b = (y - 1901) div 100"
  define c where "c = (y - 1601) div 400"
  have *: "4 * a \<le> y - 1969" "y - 1969 < 4 * a + 4"
    "100 * b \<le> y - 1901" "y - 1901 < 100 * b + 100"
    "400 * c \<le> y - 1601" "y - 1601 < 400 * c + 400"
    using div_bounds [of 4 "y - 1969"] div_bounds [of 100 "y - 1901"]
      div_bounds [of 400 "y - 1601"]
    by (simp_all add: a_def b_def c_def)
  have d: "DayFromYear y = 365 * y - 719050 + a - b + c"
    by (simp add: DayFromYear_def a_def b_def c_def)
  show "- 700000 \<le> DayFromYear y"
    using * d assms by linarith
  show "DayFromYear y \<le> 73100000"
    using * d assms by linarith
qed

lemma MonthStart_bounds: "0 \<le> MonthStart y mn" "MonthStart y mn \<le> 335"
  by (simp_all add: MonthStart_def)

lemma MakeDay_bounds:
  assumes "100 \<le> y" "y \<le> 200000" "0 \<le> m" "m \<le> 12" "0 \<le> dt" "dt \<le> 31"
  shows "- 700001 \<le> MakeDay y m dt" "MakeDay y m dt \<le> 73100366"
proof -
  have ym: "100 \<le> y + m div 12" "y + m div 12 \<le> 200001"
    using assms by (simp_all add: pos_imp_zdiv_nonneg_iff) 
  show "- 700001 \<le> MakeDay y m dt"
    using DayFromYear_bounds(1) [OF ym] MonthStart_bounds(1) [of "y + m div 12" "m mod 12"] assms
    by (simp add: MakeDay_def Let_def)
  show "MakeDay y m dt \<le> 73100366"
    using DayFromYear_bounds(2) [OF ym] MonthStart_bounds(2) [of "y + m div 12" "m mod 12"] assms
    by (simp add: MakeDay_def Let_def)
qed

lemma new_Date_Time:
  assumes "100 \<le> y" "y \<le> 200000" "0 \<le> m" "m \<le> 12" "0 \<le> dt" "dt \<le> 31"
    "0 \<le> MakeTime h mi s milli" "MakeTime h mi s milli < msPerDay"
  shows "new_Date y m dt h mi s milli = Time (MakeDate (MakeDay y m dt) (MakeTime h mi s milli))"
proof -
  have "\<bar>MakeDate (MakeDay y m dt) (MakeTime h mi s milli)\<bar> \<le> 8640000000000000"
    using MakeDay_bounds [OF assms(1-6)] assms(7,8)
    by (simp add: MakeDate_def msPerDay_def abs_le_iff)
  then show ?thesis
    using assms(1) by (simp add: new_Date_def TimeClip_def)
qed

lemma month_window:
  assumes "100 \<le> year" "year \<le> 200000" "1 \<le> month" "month \<le> 12"
  shows "new_Date year (month - 1) 1 0 0 0 0 = Time (month_first_instant year month)"
    and "new_Date year month 0 23 59 59 0 = Time (month_last_second year month)"
    and "new_Date year month 1 0 0 0 0 = Time (month_last_second year month + 1000)"
proof -
  have days: "1 \<le> DaysInMonth year month" "DaysInMonth year month \<le> 31"
    by (simp_all add: DaysInMonth_def)
  show "new_Date year (month - 1) 1 0 0 0 0 = Time (month_first_instant year month)"
    using assms by (simp add: new_Date_Time month_first_instant_def MakeTime_def msPerDay_def)
  have last: "MakeDay year month 0 = MakeDay year (month - 1) (DaysInMonth year month)"
    using MakeDay_next_month [OF assms(3,4), of year 0] by (simp add: MakeDay_def Let_def)
  show "new_Date year month 0 23 59 59 0 = Time (month_last_second year month)"
    using assms by (simp add: new_Date_Time month_last_second_def MakeTime_def msPerDay_def last)
  have "MakeDay year month 1 = MakeDay year month 0 + 1"
    by (simp add: MakeDay_def Let_def)
  then show "new_Date year month 1 0 0 0 0 = Time (month_last_second year month + 1000)"
    using assms
    by (simp add: new_Date_Time month_last_second_def MakeTime_def MakeDate_def msPerDay_def last)
qed

lemma example_dates:
  "new_Date 2024 2 1 0 0 0 0 = Time 1709251200000"
  "new_Date 2024 3 0 23 59 59 0 = Time 1711929599000"
  "new_Date 2024 2 31 23 59 59 999 = Time 1711929599999"
  "new_Date 2024 3 1 0 0 0 0 = Time 1711929600000"
  "new_Date 2024 2 5 12 0 0 0 = Time 1709640000000"
  "new_Date 2024 2 20 0 0 0 0 = Time 1710892800000"
  "new_Date 2024 1 10 0 0 0 0 = Time 1707523200000"
  "new_Date 2024 2 25 0 0 0 0 = Time 1711324800000"
  by (simp_all add: new_Date_def TimeClip_def MakeDate_def MakeDay_def MakeTime_def
      DayFromYear_def MonthStart_def InLeapYear_def msPerDay_def Let_def)

lemma Time_image_iff: "(Time d \<in> Time ` S) = (d \<in> S)" "InvalidDate \<notin> Time ` S"
  by auto


lemmas example_defs =
  example_food_def example_tx_def example_budget_def example_transactions_def
  example_transactions_more_def example_period_def example_budgets_state_def
  example_transactions_state_def

subsection \<open>Spend of a category in a month\<close>

lemma categorySpent_as_sum_list:
  "getCategorySpent txs categoryId year month =
     sum_list (map t_amount
       (filter (\<lambda>t. c_id (t_category t) = categoryId
                    \<and> (date_le (new_Date year (month - 1) 1 0 0 0 0) (t_date t)
                       \<and> date_le (t_date t) (new_Date year month 0 23 59 59 0))
                    \<and> t_type t = ''expense'') txs))"
  by (simp add: getCategorySpent_def getTransactionsByCategory_def reduce_sum_eq date_ge_le
      TRANSACTION_TYPES_EXPENSE_def Let_def conj_commute conj_left_commute)

lemma example_spent:
  "getCategorySpent example_transactions ''food'' 2024 3 = 350"
  "getCategorySpent example_transactions_more ''food'' 2024 3 = 550"
  by (simp_all add: categorySpent_as_sum_list example_dates example_defs)



text \<open>
  C2: the window closes at 23:59:59.000 of the last day, so an expense dated in the last
  999 milliseconds of the month is left out. For March 2024 the window ends at time value
  1711929599000. An expense of 100 dated 31 March 2024 23:59:59.999 (time value
  1711929599999) is not counted for March, one dated 23:59:59.000 is, and one dated at the
  first instant of April is not; the expense at 23:59:59.999 is not counted for April either.
\<close>

theorem getCategorySpent_drops_last_millisecond:
  "new_Date 2024 2 31 23 59 59 999 = Time 1711929599999
   \<and> getCategorySpent [example_tx 9 1711929599999 100 ''expense'' ''completed''] ''food'' 2024 3 = 0
   \<and> getCategorySpent [example_tx 9 1711929599000 100 ''expense'' ''completed''] ''food'' 2024 3 = 100
   \<and> new_Date 2024 3 1 0 0 0 0 = Time 1711929600000
   \<and> getCategorySpent [example_tx 9 1711929600000 100 ''expense'' ''completed''] ''food'' 2024 3 = 0
   \<and> getCategorySpent [example_tx 9 1711929599999 100 ''expense'' ''completed''] ''food'' 2024 4 = 0"
proof -
  have april: "new_Date 2024 4 0 23 59 59 0 = Time 1714521599000"
    by (simp add: new_Date_def TimeClip_def MakeDate_def MakeDay_def MakeTime_def
        DayFromYear_def MonthStart_def InLeapYear_def msPerDay_def Let_def)
  show ?thesis
    by (simp add: categorySpent_as_sum_list example_dates april example_defs)
qed

text \<open>
  The same at every month 1..12 of a year 100..200000: an expense of the category dated at
  23:59:59.000 of the last day is counted, and one dated any time after it is not, be it in
  the last 999 milliseconds of the month or at the first instant of the next month, which is
  1000 milliseconds after the end of the window.
\<close>

lemma getCategorySpent_month_edges:
  assumes "100 \<le> year" "year \<le> 200000" "1 \<le> month" "month \<le> 12"
    and "c_id (t_category t) = categoryId" "t_type t = ''expense''"
  shows "t_date t = Time (month_last_second year month) \<Longrightarrow>
           getCategorySpent [t] categoryId year month = t_amount t"
    and "0 < k \<Longrightarrow> t_date t = Time (month_last_second year month + k) \<Longrightarrow>
           getCategorySpent [t] categoryId year month = 0"
    and "new_Date year month 1 0 0 0 0 = Time (month_last_second year month + 1000)"
proof -
  have le: "month_first_instant year month \<le> month_last_second year month"
    by (simp add: month_first_instant_def month_last_second_def MakeDate_def MakeDay_def
        MakeTime_def DaysInMonth_def msPerDay_def Let_def)
  show "t_date t = Time (month_last_second year month) \<Longrightarrow>
           getCategorySpent [t] categoryId year month = t_amount t"
    using assms le by (simp add: categorySpent_as_sum_list month_window)
  show "0 < k \<Longrightarrow> t_date t = Time (month_last_second year month + k) \<Longrightarrow>
           getCategorySpent [t] categoryId year month = 0"
    using assms by (simp add: categorySpent_as_sum_list month_window)
  show "new_Date year month 1 0 0 0 0 = Time (month_last_second year month + 1000)"
    using assms by (simp add: month_window)
qed

subsection \<open>Budget status and derived records\<close>

lemma percentage_finite:
  "b \<noteq> 0 \<Longrightarrow> js_mul (js_div a b) 100 = Fin (a / b * 100)"
  by (simp add: js_div_def)



text \<open>
  C4: every record of \<open>getBudgetsWithSpent\<close> has \<open>remaining = amount - spent\<close> and
  \<open>percentage = Math.min(spent / amount * 100, 100)\<close>, where \<open>spent\<close> is the spend of the
  budget's category in its month; for an amount other than zero that is the finite number
  \<open>min (spent / amount * 100) 100\<close>. No record has a percentage above 100, whatever the
  budgets and the transactions are, also when the spend is above the amount and the
  remaining amount is negative.
\<close>

theorem getBudgetsWithSpent_record:
  "r \<in> set (getBudgetsWithSpent bs txs) \<Longrightarrow>
     spent r = getCategorySpent txs (b_categoryId r) (b_year r) (b_month r)
   \<and> remaining r = b_amount r - spent r
   \<and> percentage r = Math_min (js_mul (js_div (spent r) (b_amount r)) 100) 100
   \<and> (b_amount r \<noteq> 0 \<longrightarrow> percentage r = Fin (min (spent r / b_amount r * 100) 100))
   \<and> \<not> js_gt (percentage r) 100"
proof -
  have le: "\<not> js_gt (Math_min x 100) 100" for x
    by (cases x) simp_all
  assume "r \<in> set (getBudgetsWithSpent bs txs)"
  then obtain b where r: "r = budget.extend b
      \<lparr>spent = getCategorySpent txs (b_categoryId b) (b_year b) (b_month b),
       remaining = b_amount b - getCategorySpent txs (b_categoryId b) (b_year b) (b_month b),
       percentage = Math_min (js_mul (js_div
         (getCategorySpent txs (b_categoryId b) (b_year b) (b_month b)) (b_amount b)) 100) 100,
       status = getBudgetStatus txs b\<rparr>"
    by (auto simp: getBudgetsWithSpent_def Let_def)
  show ?thesis
    by (simp add: r budget.defs le percentage_finite)
qed

theorem getBudgetsWithSpent_record_witness:
  "getBudgetsWithSpent [example_budget] example_transactions_more =
     [budget.extend example_budget
        \<lparr>spent = 550, remaining = - 50, percentage = Fin 100, status = ''exceeded''\<rparr>]
   \<and> \<not> js_gt (percentage (budget.extend example_budget
        \<lparr>spent = 550, remaining = - 50, percentage = Fin 100, status = ''exceeded''\<rparr>)) 100
   \<and> remaining (budget.extend example_budget
        \<lparr>spent = 550, remaining = - 50, percentage = Fin 100, status = ''exceeded''\<rparr>)
      = b_amount example_budget - 550"
proof -
  have fields: "b_categoryId example_budget = ''food''" "b_year example_budget = 2024"
    "b_month example_budget = 3" "b_amount example_budget = 500"
    by (simp_all add: example_budget_def)
  have rec: "getBudgetsWithSpent [example_budget] example_transactions_more =
     [budget.extend example_budget
        \<lparr>spent = 550, remaining = - 50, percentage = Fin 100, status = ''exceeded''\<rparr>]"
    by (simp add: getBudgetsWithSpent_def getBudgetStatus_def Let_def fields example_spent
        js_div_def BUDGET_STATUS_EXCEEDED_def)
  then have "budget.extend example_budget
        \<lparr>spent = 550, remaining = - 50, percentage = Fin 100, status = ''exceeded''\<rparr>
      \<in> set (getBudgetsWithSpent [example_budget] example_transactions_more)"
    by simp
  from getBudgetsWithSpent_record [OF this] have
    "\<not> js_gt (percentage (budget.extend example_budget
        \<lparr>spent = 550, remaining = - 50, percentage = Fin 100, status = ''exceeded''\<rparr>)) 100"
    "remaining (budget.extend example_budget
        \<lparr>spent = 550, remaining = - 50, percentage = Fin 100, status = ''exceeded''\<rparr>)
      = b_amount example_budget - 550"
    by (simp_all add: budget.defs fields js_div_def)
  with rec show ?thesis
    by (intro conjI)
qed

subsection \<open>Totals\<close>

lemma period_totals:
  "reduce_sum t_amount (filter P (getTransactionsByPeriod txs s e)) =
     sum_list (map t_amount
       (filter (\<lambda>t. P t \<and> date_le s (t_date t) \<and> date_le (t_date t) e) txs))"
  by (simp add: reduce_sum_eq getTransactionsByPeriod_def date_ge_le conj_commute)

text \<open>
  C6: with both bounds given, \<open>getTotalIncome\<close> (\<open>getTotalExpenses\<close>) is the sum of the
  amounts of the transactions of type income (expense) and status completed whose date
  lies between the bounds, both ends included; for bounds with time values \<open>a\<close> and \<open>b\<close>
  these are the dates with a time value in the closed interval from \<open>a\<close> to \<open>b\<close>. When
  a bound is not given, the sum ranges over all transactions of that type and status.
\<close>

theorem getTotalIncome_getTotalExpenses_sums:
  "getTotalIncome txs (Some s) (Some e) =
     sum_list (map t_amount
       (filter (\<lambda>t. (t_type t = ''income'' \<and> t_status t = ''completed'')
                    \<and> date_le s (t_date t) \<and> date_le (t_date t) e) txs))
   \<and> getTotalExpenses txs (Some s) (Some e) =
     sum_list (map t_amount
       (filter (\<lambda>t. (t_type t = ''expense'' \<and> t_status t = ''completed'')
                    \<and> date_le s (t_date t) \<and> date_le (t_date t) e) txs))
   \<and> getTotalIncome txs (Some (Time a)) (Some (Time b)) =
     sum_list (map t_amount
       (filter (\<lambda>t. (t_type t = ''income'' \<and> t_status t = ''completed'')
                    \<and> t_date t \<in> Time ` {a..b}) txs))
   \<and> getTotalExpenses txs (Some (Time a)) (Some (Time b)) =
     sum_list (map t_amount
       (filter (\<lambda>t. (t_type t = ''expense'' \<and> t_status t = ''completed'')
                    \<and> t_date t \<in> Time ` {a..b}) txs))
   \<and> (start = None \<or> end' = None \<longrightarrow>
        getTotalIncome txs start end' =
          sum_list (map t_amount
            (filter (\<lambda>t. t_type t = ''income'' \<and> t_status t = ''completed'') txs))
        \<and> getTotalExpenses txs start end' =
          sum_list (map t_amount
            (filter (\<lambda>t. t_type t = ''expense'' \<and> t_status t = ''completed'') txs)))"
proof -
  have some: "getTotalIncome txs (Some s) (Some e) =
     sum_list (map t_amount
       (filter (\<lambda>t. (t_type t = ''income'' \<and> t_status t = ''completed'')
                    \<and> date_le s (t_date t) \<and> date_le (t_date t) e) txs))"
    "getTotalExpenses txs (Some s) (Some e) =
     sum_list (map t_amount
       (filter (\<lambda>t. (t_type t = ''expense'' \<and> t_status t = ''completed'')
                    \<and> date_le s (t_date t) \<and> date_le (t_date t) e) txs))" for s e
    by (simp_all add: getTotalIncome_def getTotalExpenses_def period_totals
        TRANSACTION_TYPES_INCOME_def TRANSACTION_TYPES_EXPENSE_def
        TRANSACTION_STATUS_COMPLETED_def)
  have none: "getTotalIncome txs start end' =
          sum_list (map t_amount
            (filter (\<lambda>t. t_type t = ''income'' \<and> t_status t = ''completed'') txs))"
     "getTotalExpenses txs start end' =
          sum_list (map t_amount
            (filter (\<lambda>t. t_type t = ''expense'' \<and> t_status t = ''completed'') txs))"
    if "start = None \<or> end' = None"
    using that
    by (auto simp: getTotalIncome_def getTotalExpenses_def reduce_sum_eq
        TRANSACTION_TYPES_INCOME_def TRANSACTION_TYPES_EXPENSE_def
        TRANSACTION_STATUS_COMPLETED_def split: option.splits)
  show ?thesis
    using some [of s e] some [of "Time a" "Time b"] none
    by (simp add: date_le_Time_iff)
qed

theorem getTotalIncome_getTotalExpenses_sums_witness:
  "getTotalIncome example_period (Some (Time 1000)) (Some (Time 2000)) = 350
   \<and> getTotalExpenses example_period (Some (Time 1000)) (Some (Time 2000)) = 40
   \<and> getTotalIncome example_period None (Some (Time 2000)) = 420
   \<and> getTotalExpenses example_period None (Some (Time 2000)) = 65"
  using getTotalIncome_getTotalExpenses_sums
    [of example_period "Time 1000" "Time 2000" 1000 2000 None "Some (Time 2000)"]
  by (simp add: example_defs Time_image_iff)

lemma sum_list_filter_cong:
  "(\<And>x. x \<in> set xs \<Longrightarrow> P x \<Longrightarrow> f x = g x) \<Longrightarrow>
   sum_list (map f (filter P xs)) = sum_list (map g (filter P xs))"
  by (induction xs) simp_all

text \<open>
  C7: \<open>getTotalSpent\<close> for a year and month is the sum, over the active budgets of that
  year and month, of the spend of each budget's category in that month, each computed on
  its own. Two active budgets of the month with the same category therefore contribute the
  category's spend twice.
\<close>

theorem getTotalSpent_per_budget:
  "getTotalSpent bs txs year month =
     sum_list (map (\<lambda>b. getCategorySpent txs (b_categoryId b) year month)
       (filter (\<lambda>b. b_year b = year \<and> b_month b = month \<and> b_isActive b) bs))
   \<and> (b_isActive b1 \<and> b_year b1 = year \<and> b_month b1 = month \<and> b_categoryId b1 = c
        \<and> b_isActive b2 \<and> b_year b2 = year \<and> b_month b2 = month \<and> b_categoryId b2 = c
        \<longrightarrow> getTotalSpent [b1, b2] txs year month = 2 * getCategorySpent txs c year month)"
proof -
  have eq: "getTotalSpent bs txs year month =
     sum_list (map (\<lambda>b. getCategorySpent txs (b_categoryId b) year month)
       (filter (\<lambda>b. b_year b = year \<and> b_month b = month \<and> b_isActive b) bs))" for bs
    unfolding getTotalSpent_def reduce_sum_eq
    by (rule sum_list_filter_cong) simp
  show ?thesis
    by (simp add: eq)
qed

theorem getTotalSpent_per_budget_witness:
  "getTotalSpent [example_budget, example_budget\<lparr>b_id := 2, b_name := ''Food again''\<rparr>]
     example_transactions 2024 3 = 700
   \<and> getCategorySpent example_transactions ''food'' 2024 3 = 350"
  using getTotalSpent_per_budget
    [of "[example_budget, example_budget\<lparr>b_id := 2, b_name := ''Food again''\<rparr>]"
        example_transactions 2024 3
        example_budget "''food''" "example_budget\<lparr>b_id := 2, b_name := ''Food again''\<rparr>"]
  by (simp add: example_spent example_budget_def)

subsection \<open>Mutations\<close>

text \<open>
  C5: when the API call of a mutation of the budget store or of the transaction store
  (add, update, delete) fails with a message, the store's error field holds that message,
  the mutation throws an error with the same message, and the collection is the one from
  before the call.
\<close>

theorem failed_mutation_keeps_collection:
  "(post_b d = Inl msg \<longrightarrow>
      budgets (fst (addBudget post_b bstate d)) = budgets bstate
      \<and> budgets_error (fst (addBudget post_b bstate d)) = Some msg
      \<and> snd (addBudget post_b bstate d) = Inl msg)
   \<and> (put_b i u = Inl msg \<longrightarrow>
      budgets (fst (updateBudget put_b bstate i u)) = budgets bstate
      \<and> budgets_error (fst (updateBudget put_b bstate i u)) = Some msg
      \<and> snd (updateBudget put_b bstate i u) = Inl msg)
   \<and> (delete_b i = Inl msg \<longrightarrow>
      budgets (fst (deleteBudget delete_b bstate i)) = budgets bstate
      \<and> budgets_error (fst (deleteBudget delete_b bstate i)) = Some msg
      \<and> snd (deleteBudget delete_b bstate i) = Inl msg)
   \<and> (post_t d' = Inl msg \<longrightarrow>
      transactions (fst (addTransaction post_t tstate d')) = transactions tstate
      \<and> transactions_error (fst (addTransaction post_t tstate d')) = Some msg
      \<and> snd (snd (addTransaction post_t tstate d')) = Inl msg)
   \<and> (put_t j u' = Inl msg \<longrightarrow>
      transactions (fst (updateTransaction put_t tstate j u')) = transactions tstate
      \<and> transactions_error (fst (updateTransaction put_t tstate j u')) = Some msg
      \<and> snd (snd (updateTransaction put_t tstate j u')) = Inl msg)
   \<and> (delete_t j = Inl msg \<longrightarrow>
      transactions (fst (deleteTransaction delete_t tstate j)) = transactions tstate
      \<and> transactions_error (fst (deleteTransaction delete_t tstate j)) = Some msg
      \<and> snd (snd (deleteTransaction delete_t tstate j)) = Inl msg)"
  by (simp add: addBudget_def updateBudget_def deleteBudget_def
      addTransaction_def updateTransaction_def deleteTransaction_def)

theorem failed_mutation_keeps_collection_witness:
  "budgets (fst (addBudget (\<lambda>_. Inl ''Erro interno'') example_budgets_state example_budget))
     = [example_budget]
   \<and> budgets_error (fst (addBudget (\<lambda>_. Inl ''Erro interno'') example_budgets_state example_budget))
     = Some ''Erro interno''
   \<and> snd (addBudget (\<lambda>_. Inl ''Erro interno'') example_budgets_state example_budget)
     = Inl ''Erro interno''
   \<and> budgets (fst (updateBudget (\<lambda>_ _. Inl ''Erro interno'') example_budgets_state 1 example_budget))
     = [example_budget]
   \<and> budgets (fst (deleteBudget (\<lambda>_. Inl ''Erro interno'') example_budgets_state 1))
     = [example_budget]
   \<and> transactions (fst (addTransaction (\<lambda>_. Inl ''Erro interno'') example_transactions_state
        example_budget)) = example_transactions
   \<and> transactions (fst (updateTransaction (\<lambda>_ _. Inl ''Erro interno'') example_transactions_state
        1 example_budget)) = example_transactions
   \<and> transactions (fst (deleteTransaction (\<lambda>_. Inl ''Erro interno'') example_transactions_state 1))
     = example_transactions
   \<and> transactions_error (fst (deleteTransaction (\<lambda>_. Inl ''Erro interno'')
        example_transactions_state 1)) = Some ''Erro interno''
   \<and> snd (snd (deleteTransaction (\<lambda>_. Inl ''Erro interno'') example_transactions_state 1))
     = Inl ''Erro interno''"
  using failed_mutation_keeps_collection
    [where post_b = "\<lambda>_. Inl ''Erro interno''" and d = example_budget and msg = "''Erro interno''"
       and bstate = example_budgets_state and put_b = "\<lambda>_ _. Inl ''Erro interno''" and i = 1
       and u = example_budget and delete_b = "\<lambda>_. Inl ''Erro interno''"
       and post_t = "\<lambda>_. Inl ''Erro interno''" and d' = example_budget
       and tstate = example_transactions_state and put_t = "\<lambda>_ _. Inl ''Erro interno''"
       and j = 1 and u' = example_budget and delete_t = "\<lambda>_. Inl ''Erro interno''"]
  by (simp add: example_budgets_state_def example_transactions_state_def)

lemma map_replace_absent:
  "\<forall>x \<in> set xs. k x \<noteq> k p \<Longrightarrow> map (\<lambda>x. if k x = k p then p else x) xs = xs"
  by (induction xs) simp_all

text \<open>
  C10: when the record of an update matches the id of no element of the collection, the
  reducer leaves the collection as it is, and so does a successful \<open>updateBudget\<close> or
  \<open>updateTransaction\<close> whose API call returns such a record: the record is not inserted and
  no element changes, while the call still returns the record.
\<close>

theorem update_unknown_id_keeps_collection:
  "((\<forall>b \<in> set (budgets bstate). b_id b \<noteq> b_id p) \<longrightarrow>
      budgets (budgetsReducer bstate (UPDATE_BUDGET p)) = budgets bstate
      \<and> (put_b i u = Inr p \<longrightarrow>
           budgets (fst (updateBudget put_b bstate i u)) = budgets bstate
           \<and> snd (updateBudget put_b bstate i u) = Inr p))
   \<and> ((\<forall>t \<in> set (transactions tstate). t_id t \<noteq> t_id q) \<longrightarrow>
      transactions (transactionsReducer tstate (UPDATE_TRANSACTION q)) = transactions tstate
      \<and> (put_t j u' = Inr q \<longrightarrow>
           transactions (fst (updateTransaction put_t tstate j u')) = transactions tstate
           \<and> snd (snd (updateTransaction put_t tstate j u')) = Inr q))"
  by (simp add: updateBudget_def updateTransaction_def map_replace_absent)

theorem update_unknown_id_keeps_collection_witness:
  "budgets (budgetsReducer example_budgets_state
      (UPDATE_BUDGET (example_budget\<lparr>b_id := 7, b_amount := 900\<rparr>))) = [example_budget]
   \<and> budgets (fst (updateBudget (\<lambda>_ _. Inr (example_budget\<lparr>b_id := 7, b_amount := 900\<rparr>))
        example_budgets_state 7 example_budget)) = [example_budget]
   \<and> transactions (transactionsReducer example_transactions_state
        (UPDATE_TRANSACTION (example_tx 8 0 1 ''expense'' ''completed''))) = example_transactions
   \<and> transactions (fst (updateTransaction (\<lambda>_ _. Inr (example_tx 8 0 1 ''expense'' ''completed''))
        example_transactions_state 8 example_budget)) = example_transactions"
  using update_unknown_id_keeps_collection
    [where bstate = example_budgets_state and p = "example_budget\<lparr>b_id := 7, b_amount := 900\<rparr>"
       and put_b = "\<lambda>_ _. Inr (example_budget\<lparr>b_id := 7, b_amount := 900\<rparr>)" and i = 7
       and u = example_budget and tstate = example_transactions_state
       and q = "example_tx 8 0 1 ''expense'' ''completed''"
       and put_t = "\<lambda>_ _. Inr (example_tx 8 0 1 ''expense'' ''completed'')" and j = 8
       and u' = example_budget]
  by (simp add: example_defs)

subsection \<open>Account totals\<close>

text \<open>
  C8: \<open>getTotalDebt\<close> is the absolute value of the sum of the balances of exactly the
  active credit accounts with a negative balance. An account whose balance is not negative
  contributes nothing, whatever its type: it is left out, not subtracted. With one active
  credit account at -300 and one at +50 the result is 300, in either order.
\<close>

theorem getTotalDebt_negative_credit_only:
  "getTotalDebt accounts =
     \<bar>sum_list (map a_balance
        (filter (\<lambda>a. a_isActive a \<and> a_type a = ''credit'' \<and> a_balance a < 0) accounts))\<bar>
   \<and> (0 \<le> a_balance p \<longrightarrow> getTotalDebt (xs @ p # ys) = getTotalDebt (xs @ ys))
   \<and> (a_isActive a1 \<and> a_type a1 = ''credit'' \<and> a_balance a1 = - 300
        \<and> a_isActive a2 \<and> a_type a2 = ''credit'' \<and> a_balance a2 = 50
        \<longrightarrow> getTotalDebt [a1, a2] = 300 \<and> getTotalDebt [a2, a1] = 300)"
  by (simp add: getTotalDebt_def reduce_sum_eq ACCOUNT_TYPES_CREDIT_def)

theorem getTotalDebt_negative_credit_only_witness:
  "getTotalDebt
     [\<lparr>a_id = 1, a_name = ''card'', a_type = ''credit'', a_balance = - 300, a_isActive = True\<rparr>,
      \<lparr>a_id = 2, a_name = ''gold'', a_type = ''credit'', a_balance = 50, a_isActive = True\<rparr>] = 300
   \<and> getTotalDebt
     ([\<lparr>a_id = 1, a_name = ''card'', a_type = ''credit'', a_balance = - 300, a_isActive = True\<rparr>]
      @ \<lparr>a_id = 2, a_name = ''gold'', a_type = ''credit'', a_balance = 50, a_isActive = True\<rparr> # [])
     = getTotalDebt
     ([\<lparr>a_id = 1, a_name = ''card'', a_type = ''credit'', a_balance = - 300, a_isActive = True\<rparr>] @ [])"
  using getTotalDebt_negative_credit_only
    [of "[]"
        "\<lparr>a_id = 2, a_name = ''gold'', a_type = ''credit'', a_balance = 50, a_isActive = True\<rparr>"
        "[\<lparr>a_id = 1, a_name = ''card'', a_type = ''credit'', a_balance = - 300, a_isActive = True\<rparr>]"
        "[]"
        "\<lparr>a_id = 1, a_name = ''card'', a_type = ''credit'', a_balance = - 300, a_isActive = True\<rparr>"
        "\<lparr>a_id = 2, a_name = ''gold'', a_type = ''credit'', a_balance = 50, a_isActive = True\<rparr>"]
  by simp

text \<open>
  C9: \<open>getTotalBalance\<close> is the sum of the balances of exactly the active accounts whose
  type is not credit. A credit account is left out whatever its balance, so removing one
  from the account set never changes the total.
\<close>

theorem getTotalBalance_active_non_credit:
  "getTotalBalance accounts =
     sum_list (map a_balance
       (filter (\<lambda>a. a_isActive a \<and> a_type a \<noteq> ''credit'') accounts))
   \<and> (a_type p = ''credit'' \<longrightarrow> getTotalBalance (xs @ p # ys) = getTotalBalance (xs @ ys))"
  by (simp add: getTotalBalance_def reduce_sum_eq ACCOUNT_TYPES_CREDIT_def)

theorem getTotalBalance_active_non_credit_witness:
  "getTotalBalance
     ([\<lparr>a_id = 1, a_name = ''main'', a_type = ''checking'', a_balance = 1000, a_isActive = True\<rparr>]
      @ \<lparr>a_id = 2, a_name = ''gold'', a_type = ''credit'', a_balance = 50, a_isActive = True\<rparr>
      # [\<lparr>a_id = 3, a_name = ''old'', a_type = ''savings'', a_balance = 70, a_isActive = False\<rparr>])
   = getTotalBalance
     ([\<lparr>a_id = 1, a_name = ''main'', a_type = ''checking'', a_balance = 1000, a_isActive = True\<rparr>]
      @ [\<lparr>a_id = 3, a_name = ''old'', a_type = ''savings'', a_balance = 70, a_isActive = False\<rparr>])
   \<and> getTotalBalance
     ([\<lparr>a_id = 1, a_name = ''main'', a_type = ''checking'', a_balance = 1000, a_isActive = True\<rparr>]
      @ \<lparr>a_id = 2, a_name = ''gold'', a_type = ''credit'', a_balance = 50, a_isActive = True\<rparr>
      # [\<lparr>a_id = 3, a_name = ''old'', a_type = ''savings'', a_balance = 70, a_isActive = False\<rparr>])
   = 1000"
  using getTotalBalance_active_non_credit
    [of "[\<lparr>a_id = 1, a_name = ''main'', a_type = ''checking'', a_balance = 1000, a_isActive = True\<rparr>]
      @ \<lparr>a_id = 2, a_name = ''gold'', a_type = ''credit'', a_balance = 50, a_isActive = True\<rparr>
      # [\<lparr>a_id = 3, a_name = ''old'', a_type = ''savings'', a_balance = 70, a_isActive = False\<rparr>]"
        "\<lparr>a_id = 2, a_name = ''gold'', a_type = ''credit'', a_balance = 50, a_isActive = True\<rparr>"
        "[\<lparr>a_id = 1, a_name = ''main'', a_type = ''checking'', a_balance = 1000, a_isActive = True\<rparr>]"
        "[\<lparr>a_id = 3, a_name = ''old'', a_type = ''savings'', a_balance = 70, a_isActive = False\<rparr>]"]
  by simp

end
